theory Spec2Isabelle
  imports Complex_Main
begin

section \<open>Python strings\<close>

text \<open>
  A Python \<^verbatim>\<open>str\<close> is a sequence of Unicode code points, and \<^verbatim>\<open>len\<close>, slicing,
  \<^verbatim>\<open>in\<close> and \<^verbatim>\<open>startswith\<close> count code points. A string is therefore a list of
  code points (natural numbers); the Hangul literals of the sources are written with
  their code points in hexadecimal, ASCII literals through \<open>asc\<close>.

  The Unicode character tables behind \<^verbatim>\<open>str.lower\<close>, \<^verbatim>\<open>str.isdigit\<close> and the classes
  \<^verbatim>\<open>\s\<close>, \<^verbatim>\<open>\d\<close>, \<^verbatim>\<open>\w\<close> of \<^verbatim>\<open>re\<close> belong to the Python runtime, not to the
  repository. They are written out for the blocks the program's literals live in:
  Basic Latin, Latin-1 Supplement and Hangul Syllables, and the whole white-space
  class. A code point of another block counts as caseless, and as neither digit nor
  word character.
\<close>

type_synonym ustr = "nat list"

definition asc :: "string \<Rightarrow> ustr" where
  "asc s = map of_char s"

text \<open>\<^verbatim>\<open>s.startswith(p)\<close>\<close>

fun startswith :: "ustr \<Rightarrow> ustr \<Rightarrow> bool" where
  "startswith s [] = True"
| "startswith [] (p # ps) = False"
| "startswith (c # cs) (p # ps) = (c = p \<and> startswith cs ps)"

text \<open>\<^verbatim>\<open>needle in hay\<close> on strings: \<open>needle\<close> occurs in \<open>hay\<close> as a contiguous run.\<close>

fun str_in :: "ustr \<Rightarrow> ustr \<Rightarrow> bool" where
  "str_in needle [] = (needle = [])"
| "str_in needle (c # cs) = (startswith (c # cs) needle \<or> str_in needle cs)"

text \<open>\<^verbatim>\<open>str.isspace\<close> of one character, which is also the class \<^verbatim>\<open>\s\<close>.\<close>

definition is_space :: "nat \<Rightarrow> bool" where
  "is_space c \<longleftrightarrow>
     (9 \<le> c \<and> c \<le> 13) \<or> (28 \<le> c \<and> c \<le> 32) \<or> c = 0x85 \<or> c = 0xA0 \<or> c = 0x1680 \<or>
     (0x2000 \<le> c \<and> c \<le> 0x200A) \<or> c = 0x2028 \<or> c = 0x2029 \<or> c = 0x202F \<or>
     c = 0x205F \<or> c = 0x3000"

text \<open>The ASCII digits, the class \<^verbatim>\<open>[0-9]\<close>.\<close>

definition is_ascii_digit :: "nat \<Rightarrow> bool" where
  "is_ascii_digit c \<longleftrightarrow> 0x30 \<le> c \<and> c \<le> 0x39"

text \<open>The class \<^verbatim>\<open>\d\<close> (decimal digits).\<close>

definition is_decimal :: "nat \<Rightarrow> bool" where
  "is_decimal c \<longleftrightarrow> is_ascii_digit c"

text \<open>\<^verbatim>\<open>str.isdigit\<close> of one character: the decimal digits and the superscript digits.\<close>

definition is_digit_char :: "nat \<Rightarrow> bool" where
  "is_digit_char c \<longleftrightarrow> is_decimal c \<or> c = 0xB2 \<or> c = 0xB3 \<or> c = 0xB9"

text \<open>\<^verbatim>\<open>s.isdigit()\<close>: every character is a digit and there is at least one.\<close>

definition isdigit :: "ustr \<Rightarrow> bool" where
  "isdigit s \<longleftrightarrow> s \<noteq> [] \<and> list_all is_digit_char s"

text \<open>The class \<^verbatim>\<open>\w\<close>: alphanumeric characters and the underscore.\<close>

definition is_word :: "nat \<Rightarrow> bool" where
  "is_word c \<longleftrightarrow>
     is_ascii_digit c \<or> (0x41 \<le> c \<and> c \<le> 0x5A) \<or> c = 0x5F \<or> (0x61 \<le> c \<and> c \<le> 0x7A) \<or>
     c = 0xAA \<or> c = 0xB2 \<or> c = 0xB3 \<or> c = 0xB5 \<or> c = 0xB9 \<or> c = 0xBA \<or>
     (0xBC \<le> c \<and> c \<le> 0xBE) \<or> (0xC0 \<le> c \<and> c \<le> 0xD6) \<or> (0xD8 \<le> c \<and> c \<le> 0xF6) \<or>
     (0xF8 \<le> c \<and> c \<le> 0xFF) \<or> (0xAC00 \<le> c \<and> c \<le> 0xD7A3)"

text \<open>\<^verbatim>\<open>str.lower\<close>, character by character.\<close>

definition lower_char :: "nat \<Rightarrow> nat" where
  "lower_char c =
     (if (0x41 \<le> c \<and> c \<le> 0x5A) \<or> (0xC0 \<le> c \<and> c \<le> 0xDE \<and> c \<noteq> 0xD7) then c + 0x20 else c)"

definition lower :: "ustr \<Rightarrow> ustr" where
  "lower s = map lower_char s"

text \<open>\<^verbatim>\<open>s.replace(" ", "")\<close>\<close>

definition remove_spaces :: "ustr \<Rightarrow> ustr" where
  "remove_spaces s = filter (\<lambda>c. c \<noteq> 0x20) s"

text \<open>\<^verbatim>\<open>str(n)\<close> of a non-negative integer: its decimal digits.\<close>

fun str_of_nat :: "nat \<Rightarrow> ustr" where
  "str_of_nat n = (if n < 10 then [0x30 + n] else str_of_nat (n div 10) @ [0x30 + n mod 10])"

declare str_of_nat.simps [simp del]

text \<open>
  The truth value of an optional string, as in \<^verbatim>\<open>if carrier_code:\<close> and
  \<^verbatim>\<open>detected_code or "04"\<close>: \<^verbatim>\<open>None\<close> and the empty string are false.
\<close>

definition truthy :: "ustr option \<Rightarrow> bool" where
  "truthy c = (case c of None \<Rightarrow> False | Some s \<Rightarrow> s \<noteq> [])"

section \<open>Carrier directory (services/carrier\_info.py)\<close>

record Carrier =
  code :: ustr
  name :: ustr
  name_en :: ustr
  contact :: ustr
  website :: ustr
  tracking_url :: ustr

text \<open>\<^verbatim>\<open>CARRIERS\<close>: a dict, in its insertion order.\<close>

definition CARRIERS :: "(ustr \<times> Carrier) list" where
  "CARRIERS =
    [(asc ''04'', \<lparr>code = asc ''04'',
        name = [0x43, 0x4A, 0xB300, 0xD55C, 0xD1B5, 0xC6B4],
        name_en = asc ''CJ Logistics'', contact = asc ''1588-1255'',
        website = asc ''https://www.cjlogistics.com'',
        tracking_url = asc ''https://www.cjlogistics.com/ko/tool/parcel/tracking''\<rparr>),
     (asc ''08'', \<lparr>code = asc ''08'',
        name = [0xB86F, 0xB370, 0xD0DD, 0xBC30],
        name_en = asc ''Lotte Global Logistics'', contact = asc ''1588-2121'',
        website = asc ''https://www.lotteglogis.com'',
        tracking_url = asc ''https://www.lotteglogis.com/home/reservation/tracking/index''\<rparr>),
     (asc ''05'', \<lparr>code = asc ''05'',
        name = [0xD55C, 0xC9C4, 0xD0DD, 0xBC30],
        name_en = asc ''Hanjin Express'', contact = asc ''1588-0011'',
        website = asc ''https://www.hanjin.com'',
        tracking_url = asc ''https://www.hanjin.com/kor/CMS/DeliveryMgr/WaybillResult.do''\<rparr>),
     (asc ''01'', \<lparr>code = asc ''01'',
        name = [0xC6B0, 0xCCB4, 0xAD6D, 0xD0DD, 0xBC30],
        name_en = asc ''Korea Post'', contact = asc ''1588-1300'',
        website = asc ''https://www.epost.go.kr'',
        tracking_url = asc ''https://service.epost.go.kr/trace.RetrieveDomRi498Trv.postal''\<rparr>),
     (asc ''06'', \<lparr>code = asc ''06'',
        name = [0xB85C, 0xC820, 0xD0DD, 0xBC30],
        name_en = asc ''Logen'', contact = asc ''1588-9988'',
        website = asc ''https://www.ilogen.com'',
        tracking_url = asc ''https://www.ilogen.com/web/delivery/tracking''\<rparr>),
     (asc ''11'', \<lparr>code = asc ''11'',
        name = [0xC77C, 0xC591, 0xB85C, 0xC9C0, 0xC2A4],
        name_en = asc ''Ilyang Logis'', contact = asc ''1588-0002'',
        website = asc ''https://www.ilyanglogis.com'',
        tracking_url = asc ''https://www.ilyanglogis.com/functionality/tracking.asp''\<rparr>),
     (asc ''23'', \<lparr>code = asc ''23'',
        name = [0xACBD, 0xB3D9, 0xD0DD, 0xBC30],
        name_en = asc ''Kyungdong Express'', contact = asc ''1899-5368'',
        website = asc ''https://kdexp.com'',
        tracking_url = asc ''https://kdexp.com/service/delivery''\<rparr>),
     (asc ''46'', \<lparr>code = asc ''46'',
        name = [0x43, 0x55, 0xD3B8, 0xC758, 0xC810, 0xD0DD, 0xBC30],
        name_en = asc ''CU CVS Delivery'', contact = asc ''1566-1025'',
        website = asc ''https://www.cupost.co.kr'',
        tracking_url = asc ''https://www.cupost.co.kr/tracking.cupost''\<rparr>),
     (asc ''24'', \<lparr>code = asc ''24'',
        name = [0xB300, 0xC2E0, 0xD0DD, 0xBC30],
        name_en = asc ''Daesin'', contact = asc ''043-222-4582'',
        website = asc ''https://www.ds3211.com'',
        tracking_url = asc ''https://www.ds3211.com/freight/internalFreightSearch.ht''\<rparr>),
     (asc ''22'', \<lparr>code = asc ''22'',
        name = [0xB300, 0xD55C, 0xD1B5, 0xC6B4],
        name_en = asc ''Korea Express'', contact = asc ''1588-1255'',
        website = asc ''https://www.cjlogistics.com'',
        tracking_url = asc ''https://www.cjlogistics.com/ko/tool/parcel/tracking''\<rparr>)]"

text \<open>\<^verbatim>\<open>CARRIER_ALIASES\<close>: alias to carrier code, in insertion order.\<close>

definition CARRIER_ALIASES :: "(ustr \<times> ustr) list" where
  "CARRIER_ALIASES =
    [([0x63, 0x6A, 0xB300, 0xD55C, 0xD1B5, 0xC6B4], asc ''04''),
     ([0x63, 0x6A, 0xD0DD, 0xBC30], asc ''04''),
     ([0xB300, 0xD55C, 0xD1B5, 0xC6B4], asc ''04''),
     ([0xC528, 0xC81C, 0xC774, 0xB300, 0xD55C, 0xD1B5, 0xC6B4], asc ''04''),
     ([0xB86F, 0xB370, 0xD0DD, 0xBC30], asc ''08''),
     ([0xB86F, 0xB370, 0xAE00, 0xB85C, 0xBC8C, 0xB85C, 0xC9C0, 0xC2A4], asc ''08''),
     ([0xB86F, 0xB370], asc ''08''),
     ([0xD55C, 0xC9C4, 0xD0DD, 0xBC30], asc ''05''),
     ([0xD55C, 0xC9C4], asc ''05''),
     ([0xC6B0, 0xCCB4, 0xAD6D], asc ''01''),
     ([0xC6B0, 0xCCB4, 0xAD6D, 0xD0DD, 0xBC30], asc ''01''),
     ([0xC6B0, 0xD3B8], asc ''01''),
     ([0xB85C, 0xC820, 0xD0DD, 0xBC30], asc ''06''),
     ([0xB85C, 0xC820], asc ''06''),
     ([0xC77C, 0xC591, 0xB85C, 0xC9C0, 0xC2A4], asc ''11''),
     ([0xC77C, 0xC591], asc ''11''),
     ([0xACBD, 0xB3D9, 0xD0DD, 0xBC30], asc ''23''),
     ([0xACBD, 0xB3D9], asc ''23''),
     ([0x63, 0x75, 0xD0DD, 0xBC30], asc ''46''),
     ([0x63, 0x75, 0xD3B8, 0xC758, 0xC810], asc ''46''),
     ([0xC528, 0xC720, 0xD0DD, 0xBC30], asc ''46''),
     ([0xB300, 0xC2E0, 0xD0DD, 0xBC30], asc ''24''),
     ([0xB300, 0xC2E0], asc ''24'')]"

definition get_carrier_by_code :: "ustr \<Rightarrow> Carrier option" where
  "get_carrier_by_code c = map_of CARRIERS c"

text \<open>
  \<^verbatim>\<open>if code:\<close> tests the alias's code for truth; a missing alias and an empty code both
  give \<open>None\<close>.
\<close>

definition get_carrier_by_name :: "ustr \<Rightarrow> Carrier option" where
  "get_carrier_by_name nm =
     (let name_lower = remove_spaces (lower nm) in
      case map_of CARRIER_ALIASES name_lower of
        None \<Rightarrow> None
      | Some c \<Rightarrow> (if c \<noteq> [] then map_of CARRIERS c else None))"

text \<open>
  The rules are tried in the order of the source; the first one that holds returns.
  The first rule does not ask for digits.
\<close>

definition detect_carrier_from_tracking :: "ustr \<Rightarrow> ustr option" where
  "detect_carrier_from_tracking tracking_number =
     (if startswith tracking_number (asc ''6'') \<and> length tracking_number \<in> set [12, 13]
      then Some (asc ''04'')
      else if length tracking_number = 13 \<and> isdigit tracking_number
      then Some (asc ''01'')
      else if length tracking_number = 11 \<and> isdigit tracking_number
      then Some (asc ''06'')
      else None)"

definition get_all_carriers :: "Carrier list" where
  "get_all_carriers = map snd CARRIERS"

section \<open>Regular expressions (Python's \<^verbatim>\<open>re\<close>)\<close>

text \<open>
  The patterns of the sources are built from character classes, literals, sequences,
  alternatives, greedy repetitions of one character class, the word boundary and
  capture groups. \<^verbatim>\<open>re\<close> matches by backtracking: a repetition takes as many
  characters as it can and gives them back one at a time, an alternative tries its
  branches from the left, and the first way to match the whole pattern wins. The
  matcher below does the same, with the rest of the pattern as a continuation.

  The input is read from the left: a state is the character before the position
  (none at the start of the text) and the text from the position on.
\<close>

datatype rx =
  Eps
  | Cls "nat \<Rightarrow> bool"
  | Seq rx rx
  | Alt rx rx
  | Rep "nat \<Rightarrow> bool" nat "nat option"
  | Bnd
  | Grp nat rx

type_synonym mstate = "nat option \<times> ustr"
type_synonym captures = "(nat \<times> ustr) list"

text \<open>
  \<^verbatim>\<open>\b\<close>: exactly one of the characters before and after the position is a word
  character; the ends of the text count as non-word.
\<close>

definition at_boundary :: "mstate \<Rightarrow> bool" where
  "at_boundary st =
     ((case fst st of None \<Rightarrow> False | Some c \<Rightarrow> is_word c) \<noteq>
      (case snd st of [] \<Rightarrow> False | c # cs \<Rightarrow> is_word c))"

text \<open>
  \<^verbatim>\<open>c{mn,mx}\<close>, \<^verbatim>\<open>c*\<close> and \<^verbatim>\<open>c+\<close>, greedy: \<open>n\<close> characters are taken already; one more
  is tried first, and stopping here is tried when that fails.
\<close>

fun rep_greedy ::
  "(nat \<Rightarrow> bool) \<Rightarrow> nat \<Rightarrow> nat \<Rightarrow> nat option \<Rightarrow> nat option \<Rightarrow> ustr \<Rightarrow> (mstate \<Rightarrow> 'r option)
     \<Rightarrow> 'r option"
where
  "rep_greedy p n mn mx prev [] k = (if mn \<le> n then k (prev, []) else None)"
| "rep_greedy p n mn mx prev (c # cs) k =
     (if p c \<and> (case mx of None \<Rightarrow> True | Some m \<Rightarrow> n < m)
      then (case rep_greedy p (Suc n) mn mx (Some c) cs k of
              Some r \<Rightarrow> Some r
            | None \<Rightarrow> if mn \<le> n then k (prev, c # cs) else None)
      else if mn \<le> n then k (prev, c # cs) else None)"

text \<open>What was read between two states of one match.\<close>

definition consumed :: "mstate \<Rightarrow> mstate \<Rightarrow> ustr" where
  "consumed st st' = take (length (snd st) - length (snd st')) (snd st)"

primrec rx_match ::
  "rx \<Rightarrow> mstate \<Rightarrow> captures \<Rightarrow> (mstate \<Rightarrow> captures \<Rightarrow> 'r option) \<Rightarrow> 'r option"
where
  "rx_match Eps = (\<lambda>st caps k. k st caps)"
| "rx_match (Cls p) = (\<lambda>st caps k.
     case snd st of
       [] \<Rightarrow> None
     | c # cs \<Rightarrow> if p c then k (Some c, cs) caps else None)"
| "rx_match (Seq a b) = (\<lambda>st caps k. rx_match a st caps (\<lambda>st' caps'. rx_match b st' caps' k))"
| "rx_match (Alt a b) = (\<lambda>st caps k.
     case rx_match a st caps k of
       Some r \<Rightarrow> Some r
     | None \<Rightarrow> rx_match b st caps k)"
| "rx_match (Rep p mn mx) = (\<lambda>st caps k.
     rep_greedy p 0 mn mx (fst st) (snd st) (\<lambda>st'. k st' caps))"
| "rx_match Bnd = (\<lambda>st caps k. if at_boundary st then k st caps else None)"
| "rx_match (Grp g a) = (\<lambda>st caps k.
     rx_match a st caps (\<lambda>st' caps'. k st' ((g, consumed st st') # caps')))"

text \<open>A match of the pattern at a state: the state after it and the groups.\<close>

definition match_at :: "rx \<Rightarrow> mstate \<Rightarrow> (mstate \<times> captures) option" where
  "match_at r st = rx_match r st [] (\<lambda>st' caps. Some (st', caps))"

text \<open>\<^verbatim>\<open>re.match(pattern, s)\<close>: a match at the start of the string.\<close>

definition re_match :: "rx \<Rightarrow> ustr \<Rightarrow> (mstate \<times> captures) option" where
  "re_match r s = match_at r (None, s)"

text \<open>The string of a group; a group that took no part in the match has none.\<close>

definition group :: "captures \<Rightarrow> nat \<Rightarrow> ustr option" where
  "group caps g = map_of caps g"

text \<open>
  \<^verbatim>\<open>re.search(pattern, s)\<close>: the match at the leftmost position that has one.
\<close>

fun search_from :: "rx \<Rightarrow> nat option \<Rightarrow> ustr \<Rightarrow> (mstate \<times> captures) option" where
  "search_from r prev [] = match_at r (prev, [])"
| "search_from r prev (c # cs) =
     (case match_at r (prev, c # cs) of
        Some m \<Rightarrow> Some m
      | None \<Rightarrow> search_from r (Some c) cs)"

definition re_search :: "rx \<Rightarrow> ustr \<Rightarrow> (mstate \<times> captures) option" where
  "re_search r s = search_from r None s"

text \<open>
  \<^verbatim>\<open>re.findall(pattern, s)\<close> for a pattern with one group, numbered 1: the strings of
  the group in all matches, found from left to right without overlap. The search goes
  on where the last match ended, and one character further after an empty match.
\<close>

function findall_from :: "rx \<Rightarrow> nat option \<Rightarrow> ustr \<Rightarrow> ustr list" where
  "findall_from r prev s =
     (case match_at r (prev, s) of
        Some ((prev', s'), caps) \<Rightarrow>
          (case group caps 1 of None \<Rightarrow> [] | Some g \<Rightarrow> g) #
          (if length s' < length s then findall_from r prev' s'
           else case s of [] \<Rightarrow> [] | c # cs \<Rightarrow> findall_from r (Some c) cs)
      | None \<Rightarrow> (case s of [] \<Rightarrow> [] | c # cs \<Rightarrow> findall_from r (Some c) cs))"
  by pat_completeness auto
termination
  by (relation "measure (\<lambda>(r, prev, s). length s)") auto

declare findall_from.simps [simp del]

definition findall :: "rx \<Rightarrow> ustr \<Rightarrow> ustr list" where
  "findall r s = findall_from r None s"

text \<open>\<^verbatim>\<open>re.sub(cls, "", s)\<close> for a pattern that is one character class.\<close>

definition sub_class_empty :: "(nat \<Rightarrow> bool) \<Rightarrow> ustr \<Rightarrow> ustr" where
  "sub_class_empty p s = filter (\<lambda>c. \<not> p c) s"

subsection \<open>Building patterns\<close>

text \<open>A literal character, and one matched with \<^verbatim>\<open>re.IGNORECASE\<close>.\<close>

definition chr_is :: "nat \<Rightarrow> nat \<Rightarrow> bool" where
  "chr_is c x \<longleftrightarrow> x = c"

text \<open>
  Under \<^verbatim>\<open>re.IGNORECASE\<close> two characters match when their lower-case forms agree;
  besides, the dotted capital and the dotless small i match i, the long s matches s
  and the Kelvin sign matches k.
\<close>

definition fold_case :: "nat \<Rightarrow> nat" where
  "fold_case x =
     (if x = 0x130 \<or> x = 0x131 then 0x69
      else if x = 0x17F then 0x73
      else if x = 0x212A then 0x6B
      else lower_char x)"

definition chr_ci :: "nat \<Rightarrow> nat \<Rightarrow> bool" where
  "chr_ci c x \<longleftrightarrow> fold_case x = fold_case c"

text \<open>A literal string, character by character, with the given character test.\<close>

fun lit :: "(nat \<Rightarrow> nat \<Rightarrow> bool) \<Rightarrow> ustr \<Rightarrow> rx" where
  "lit t [] = Eps"
| "lit t [c] = Cls (t c)"
| "lit t (c # cs) = Seq (Cls (t c)) (lit t cs)"

text \<open>A sequence of patterns.\<close>

fun seqs :: "rx list \<Rightarrow> rx" where
  "seqs [] = Eps"
| "seqs [r] = r"
| "seqs (r # rs) = Seq r (seqs rs)"

text \<open>Alternatives, tried from the left.\<close>

fun alts :: "rx list \<Rightarrow> rx" where
  "alts [] = Eps"
| "alts [r] = r"
| "alts (r # rs) = Alt r (alts rs)"

definition in_range :: "nat \<Rightarrow> nat \<Rightarrow> nat \<Rightarrow> bool" where
  "in_range lo hi x \<longleftrightarrow> lo \<le> x \<and> x \<le> hi"

section \<open>Status translation (utils/status\_translator.py)\<close>

datatype DeliveryPhase = PICKUP | IN_TRANSIT | OUT_FOR_DELIVERY | DELIVERED | ISSUE

record TranslatedStatus =
  original :: ustr
  translated :: ustr
  short :: ustr
  phase :: DeliveryPhase
  emoji :: ustr
  is_final :: bool
  estimated_hours :: "int option"

text \<open>
  \<^verbatim>\<open>STATUS_TRANSLATIONS\<close>: a dict from the lower-case keyword to the tuple
  (translated, short, phase, emoji, is\_final, est\_hours). A dict iterates in insertion
  order, which the partial match depends on, so the table is an association list in the
  order of the source.
\<close>

type_synonym status_entry = "ustr \<times> ustr \<times> DeliveryPhase \<times> ustr \<times> bool \<times> int option"

definition STATUS_TRANSLATIONS :: "(ustr \<times> status_entry) list" where
  "STATUS_TRANSLATIONS =
    [
     ([0xC811, 0xC218],
      ([0xD310, 0xB9E4, 0xC790, 0xAC00, 0x20, 0xD0DD, 0xBC30, 0xB97C, 0x20, 0xC811, 0xC218, 0xD588, 0xC5B4, 0xC694],
       [0xC811, 0xC218, 0xB428], PICKUP, [0x1F4DD], False, Some 72)),
     ([0xC9D1, 0xD654, 0xCC98, 0xB9AC],
      ([0xD0DD, 0xBC30, 0xC0AC, 0xAC00, 0x20, 0xBB3C, 0xAC74, 0xC744, 0x20, 0xC218, 0xAC70, 0xD588, 0xC5B4, 0xC694],
       [0xC218, 0xAC70, 0x20, 0xC644, 0xB8CC], PICKUP, [0x1F4E6], False, Some 48)),
     ([0xC9D1, 0xD558],
      ([0xD0DD, 0xBC30, 0xC0AC, 0xAC00, 0x20, 0xBB3C, 0xAC74, 0xC744, 0x20, 0xC218, 0xAC70, 0xD588, 0xC5B4, 0xC694],
       [0xC218, 0xAC70, 0x20, 0xC644, 0xB8CC], PICKUP, [0x1F4E6], False, Some 48)),
     ([0xC0C1, 0xD488, 0xC778, 0xC218],
      ([0xD0DD, 0xBC30, 0xC0AC, 0xAC00, 0x20, 0xBB3C, 0xAC74, 0xC744, 0x20, 0xBC1B, 0xC558, 0xC5B4, 0xC694],
       [0xC778, 0xC218, 0x20, 0xC644, 0xB8CC], PICKUP, [0x1F4E6], False, Some 48)),
     ([0xAC04, 0xC120, 0xC0C1, 0xCC28],
      ([0xD070, 0x20, 0xD2B8, 0xB7ED, 0xC5D0, 0x20, 0xC2E4, 0xB824, 0xC11C, 0x20, 0xB2E4, 0xC74C, 0x20, 0xD5C8, 0xBE0C, 0xB85C, 0x20, 0xC774, 0xB3D9, 0x20, 0xC911, 0xC774, 0xC5D0, 0xC694],
       [0xD5C8, 0xBE0C, 0x20, 0xC774, 0xB3D9, 0x20, 0xC911], IN_TRANSIT, [0x1F69B], False, Some 24)),
     ([0xAC04, 0xC120, 0xD558, 0xCC28],
      ([0xD5C8, 0xBE0C, 0xC5D0, 0x20, 0xB3C4, 0xCC29, 0xD574, 0xC11C, 0x20, 0xBD84, 0xB958, 0x20, 0xC911, 0xC774, 0xC5D0, 0xC694],
       [0xD5C8, 0xBE0C, 0x20, 0xB3C4, 0xCC29], IN_TRANSIT, [0x1F3ED], False, Some 18)),
     ([0xAC04, 0xC120],
      ([0xD5C8, 0xBE0C, 0x20, 0xAC04, 0x20, 0xC774, 0xB3D9, 0x20, 0xC911, 0xC774, 0xC5D0, 0xC694],
       [0xC774, 0xB3D9, 0x20, 0xC911], IN_TRANSIT, [0x1F69B], False, Some 24)),
     ([0xD589, 0xB0AD, 0xD3EC, 0xC7A5],
      ([0xC5EC, 0xB7EC, 0x20, 0xC18C, 0xD3EC, 0xB97C, 0x20, 0xBB36, 0xC5B4, 0xC11C, 0x20, 0xD3EC, 0xC7A5, 0x20, 0xC911, 0xC774, 0xC5D0, 0xC694],
       [0xD3EC, 0xC7A5, 0x20, 0xC911], IN_TRANSIT, [0x1F4EE], False, Some 24)),
     ([0xBC1C, 0xC1A1],
      ([0xBC1C, 0xC1A1, 0x20, 0xCC98, 0xB9AC, 0xB418, 0xC5C8, 0xC5B4, 0xC694],
       [0xBC1C, 0xC1A1, 0xB428], IN_TRANSIT, [0x1F4E4], False, Some 48)),
     ([0xCD9C, 0xACE0],
      ([0xCD9C, 0xACE0, 0x20, 0xCC98, 0xB9AC, 0xB418, 0xC5C8, 0xC5B4, 0xC694],
       [0xCD9C, 0xACE0, 0xB428], IN_TRANSIT, [0x1F4E4], False, Some 48)),
     ([0xC785, 0xACE0],
      ([0xD5C8, 0xBE0C, 0xC5D0, 0x20, 0xB3C4, 0xCC29, 0xD588, 0xC5B4, 0xC694],
       [0xD5C8, 0xBE0C, 0x20, 0xC785, 0xACE0], IN_TRANSIT, [0x1F3E2], False, Some 18)),
     ([0xC0C1, 0xCC28],
      ([0xD2B8, 0xB7ED, 0xC5D0, 0x20, 0xC0C1, 0xCC28, 0xB418, 0xC5C8, 0xC5B4, 0xC694],
       [0xC0C1, 0xCC28, 0xB428], IN_TRANSIT, [0x1F69A], False, Some 12)),
     ([0xD558, 0xCC28],
      ([0xB3C4, 0xCC29, 0xC9C0, 0xC5D0, 0xC11C, 0x20, 0xD558, 0xCC28, 0xB418, 0xC5C8, 0xC5B4, 0xC694],
       [0xD558, 0xCC28, 0xB428], IN_TRANSIT, [0x1F4E5], False, Some 8)),
     ([0xD130, 0xBBF8, 0xB110],
      ([0xD130, 0xBBF8, 0xB110, 0xC5D0, 0xC11C, 0x20, 0xBD84, 0xB958, 0x20, 0xC911, 0xC774, 0xC5D0, 0xC694],
       [0xD130, 0xBBF8, 0xB110, 0x20, 0xBD84, 0xB958], IN_TRANSIT, [0x1F3ED], False, Some 18)),
     ([0xC774, 0xB3D9, 0xC911],
      ([0xBC30, 0xC1A1, 0x20, 0xC911, 0xC774, 0xC5D0, 0xC694],
       [0xC774, 0xB3D9, 0x20, 0xC911], IN_TRANSIT, [0x1F69A], False, Some 12)),
     ([0x73, 0x6D, 0xC785, 0xACE0],
      ([0xBC30, 0xC1A1, 0x20, 0xAE30, 0xC0AC, 0xB2D8, 0xC774, 0x20, 0xBB3C, 0xAC74, 0xC744, 0x20, 0xBC1B, 0xC558, 0xC5B4, 0xC694, 0x21, 0x20, 0xC624, 0xB298, 0x20, 0xB3C4, 0xCC29, 0x20, 0xC608, 0xC815],
       [0xAE30, 0xC0AC, 0xB2D8, 0x20, 0xC218, 0xB839], OUT_FOR_DELIVERY, [0x1F64B], False, Some 6)),
     ([0xBC30, 0xB2EC, 0xCD9C, 0xBC1C],
      ([0xBC30, 0xC1A1, 0x20, 0xAE30, 0xC0AC, 0xB2D8, 0xC774, 0x20, 0xCD9C, 0xBC1C, 0xD588, 0xC5B4, 0xC694, 0x21, 0x20, 0xACE7, 0x20, 0xB3C4, 0xCC29, 0xD574, 0xC694],
       [0xBC30, 0xC1A1, 0x20, 0xCD9C, 0xBC1C], OUT_FOR_DELIVERY, [0x1F69A], False, Some 3)),
     ([0xBC30, 0xB2EC, 0xC900, 0xBE44],
      ([0xBC30, 0xC1A1, 0x20, 0xC900, 0xBE44, 0x20, 0xC911, 0xC774, 0xC5D0, 0xC694],
       [0xBC30, 0xC1A1, 0x20, 0xC900, 0xBE44], OUT_FOR_DELIVERY, [0x1F4CB], False, Some 6)),
     ([0xBC30, 0xC1A1, 0xCD9C, 0xBC1C],
      ([0xBC30, 0xC1A1, 0x20, 0xAE30, 0xC0AC, 0xB2D8, 0xC774, 0x20, 0xCD9C, 0xBC1C, 0xD588, 0xC5B4, 0xC694, 0x21],
       [0xBC30, 0xC1A1, 0x20, 0xCD9C, 0xBC1C], OUT_FOR_DELIVERY, [0x1F69A], False, Some 3)),
     ([0xBC30, 0xB2EC, 0xC911],
      ([0xBC30, 0xC1A1, 0x20, 0xC911, 0xC774, 0xC5D0, 0xC694, 0x21, 0x20, 0xC870, 0xAE08, 0xB9CC, 0x20, 0xAE30, 0xB2E4, 0xB824, 0xC8FC, 0xC138, 0xC694],
       [0xBC30, 0xC1A1, 0x20, 0xC911], OUT_FOR_DELIVERY, [0x1F69A], False, Some 2)),
     ([0xBC30, 0xB2EC, 0xC644, 0xB8CC],
      ([0xBC30, 0xC1A1, 0xC774, 0x20, 0xC644, 0xB8CC, 0xB418, 0xC5C8, 0xC5B4, 0xC694, 0x21, 0x20, 0xD655, 0xC778, 0xD574, 0xC8FC, 0xC138, 0xC694],
       [0xBC30, 0xC1A1, 0x20, 0xC644, 0xB8CC], DELIVERED, [0x2705], True, Some 0)),
     ([0xBC30, 0xC1A1, 0xC644, 0xB8CC],
      ([0xBC30, 0xC1A1, 0xC774, 0x20, 0xC644, 0xB8CC, 0xB418, 0xC5C8, 0xC5B4, 0xC694, 0x21, 0x20, 0xD655, 0xC778, 0xD574, 0xC8FC, 0xC138, 0xC694],
       [0xBC30, 0xC1A1, 0x20, 0xC644, 0xB8CC], DELIVERED, [0x2705], True, Some 0)),
     ([0xC778, 0xC218, 0xD655, 0xC778],
      ([0xC218, 0xB839, 0xC774, 0x20, 0xD655, 0xC778, 0xB418, 0xC5C8, 0xC5B4, 0xC694],
       [0xC218, 0xB839, 0x20, 0xC644, 0xB8CC], DELIVERED, [0x2705], True, Some 0)),
     ([0xC218, 0xB839],
      ([0xC218, 0xB839, 0xC774, 0x20, 0xD655, 0xC778, 0xB418, 0xC5C8, 0xC5B4, 0xC694],
       [0xC218, 0xB839, 0x20, 0xC644, 0xB8CC], DELIVERED, [0x2705], True, Some 0)),
     ([0xC644, 0xB8CC],
      ([0xBC30, 0xC1A1, 0xC774, 0x20, 0xC644, 0xB8CC, 0xB418, 0xC5C8, 0xC5B4, 0xC694, 0x21],
       [0xC644, 0xB8CC], DELIVERED, [0x2705], True, Some 0)),
     ([0xBC18, 0xC1A1],
      ([0xBC18, 0xC1A1, 0x20, 0xCC98, 0xB9AC, 0xB418, 0xC5C8, 0xC5B4, 0xC694, 0x2E, 0x20, 0xD310, 0xB9E4, 0xC790, 0xC5D0, 0xAC8C, 0x20, 0xBB38, 0xC758, 0xD574, 0xC8FC, 0xC138, 0xC694],
       [0xBC18, 0xC1A1], ISSUE, [0x21A9, 0xFE0F], True, None)),
     ([0xBBF8, 0xBC30, 0xB2EC],
      ([0xBC30, 0xC1A1, 0xC744, 0x20, 0xBABB, 0x20, 0xD588, 0xC5B4, 0xC694, 0x2E, 0x20, 0xC7AC, 0xBC30, 0xC1A1, 0x20, 0xC608, 0xC815, 0xC774, 0xC5D0, 0xC694],
       [0xBBF8, 0xBC30, 0xB2EC], ISSUE, [0x26A0, 0xFE0F], False, Some 24)),
     ([0xBCF4, 0xAD00],
      ([0xBB3C, 0xAC74, 0xC744, 0x20, 0xBCF4, 0xAD00, 0x20, 0xC911, 0xC774, 0xC5D0, 0xC694, 0x20, 0x28, 0xACBD, 0xBE44, 0xC2E4, 0x2F, 0xD0DD, 0xBC30, 0xD568, 0x20, 0xB4F1, 0x29],
       [0xBCF4, 0xAD00, 0x20, 0xC911], DELIVERED, [0x1F4CD], True, Some 0)),
     ([0xBD80, 0xC7AC],
      ([0xBD80, 0xC7AC, 0xC911, 0xC774, 0xB77C, 0x20, 0xBC30, 0xC1A1, 0xC744, 0x20, 0xBABB, 0x20, 0xD588, 0xC5B4, 0xC694],
       [0xBD80, 0xC7AC], ISSUE, [0x1F3E0], False, Some 24)),
     ([0xC8FC, 0xC18C, 0xBD88, 0xBA85],
      ([0xC8FC, 0xC18C, 0xAC00, 0x20, 0xBD88, 0xBA85, 0xD655, 0xD574, 0xC694, 0x2E, 0x20, 0xD310, 0xB9E4, 0xC790, 0xC5D0, 0xAC8C, 0x20, 0xD655, 0xC778, 0x20, 0xC694, 0xCCAD, 0xD574, 0xC8FC, 0xC138, 0xC694],
       [0xC8FC, 0xC18C, 0x20, 0xC624, 0xB958], ISSUE, [0x2753], False, None)),
     ([0xC218, 0xCDE8, 0xAC70, 0xBD80],
      ([0xC218, 0xCDE8, 0xAC00, 0x20, 0xAC70, 0xBD80, 0xB418, 0xC5C8, 0xC5B4, 0xC694],
       [0xC218, 0xCDE8, 0x20, 0xAC70, 0xBD80], ISSUE, [0x1F6AB], True, None)),
     ([0xBD84, 0xC2E4],
      ([0xBD84, 0xC2E4, 0x20, 0xCC98, 0xB9AC, 0xB418, 0xC5C8, 0xC5B4, 0xC694, 0x2E, 0x20, 0xD310, 0xB9E4, 0xC790, 0xC5D0, 0xAC8C, 0x20, 0xBB38, 0xC758, 0xD574, 0xC8FC, 0xC138, 0xC694],
       [0xBD84, 0xC2E4], ISSUE, [0x274C], True, None))]"

definition make_status :: "ustr \<Rightarrow> status_entry \<Rightarrow> TranslatedStatus" where
  "make_status raw_status e =
     (case e of (tr, shrt, ph, em, fin, est) \<Rightarrow>
        \<lparr>original = raw_status, translated = tr, short = shrt, phase = ph, emoji = em,
         is_final = fin, estimated_hours = est\<rparr>)"

text \<open>
  The \<^verbatim>\<open>for\<close> loop of the partial match: the first keyword, in table order, that occurs
  in the status returns its entry.
\<close>

fun partial_match :: "(ustr \<times> status_entry) list \<Rightarrow> ustr \<Rightarrow> status_entry option" where
  "partial_match [] status_lower = None"
| "partial_match ((keyword, e) # rest) status_lower =
     (if str_in keyword status_lower then Some e else partial_match rest status_lower)"

definition translate_status :: "ustr \<Rightarrow> TranslatedStatus" where
  "translate_status raw_status =
     (let status_lower = remove_spaces (lower raw_status) in
      case map_of STATUS_TRANSLATIONS status_lower of
        Some e \<Rightarrow> make_status raw_status e
      | None \<Rightarrow>
         (case partial_match STATUS_TRANSLATIONS status_lower of
            Some e \<Rightarrow> make_status raw_status e
          | None \<Rightarrow>
             if str_in [0xC644, 0xB8CC] status_lower \<or> str_in [0xB3C4, 0xCC29] status_lower
             then \<lparr>original = raw_status,
                   translated = raw_status @ [0x20, 0x2D, 0x20, 0xBC30, 0xC1A1, 0x20, 0xC9C4, 0xD589,
                     0x20, 0xC911, 0xC778, 0x20, 0xAC83, 0x20, 0xAC19, 0xC544, 0xC694],
                   short = take 6 raw_status, phase = IN_TRANSIT, emoji = [0x1F4E6],
                   is_final = False, estimated_hours = Some 24\<rparr>
             else \<lparr>original = raw_status,
                   translated = [0x27] @ raw_status @ [0x27, 0x20, 0xC0C1, 0xD0DC, 0xC608, 0xC694,
                     0x2E, 0x20, 0xBC30, 0xC1A1, 0xC774, 0x20, 0xC9C4, 0xD589, 0x20, 0xC911, 0xC778,
                     0x20, 0xAC83, 0x20, 0xAC19, 0xC544, 0xC694],
                   short = (if length raw_status > 6 then take 6 raw_status else raw_status),
                   phase = IN_TRANSIT, emoji = [0x1F4E6],
                   is_final = False, estimated_hours = None\<rparr>))"

definition get_progress_percentage :: "DeliveryPhase \<Rightarrow> int" where
  "get_progress_percentage ph =
     (case ph of PICKUP \<Rightarrow> 20 | IN_TRANSIT \<Rightarrow> 50 | OUT_FOR_DELIVERY \<Rightarrow> 80
      | DELIVERED \<Rightarrow> 100 | ISSUE \<Rightarrow> 50)"

section \<open>Tracking number parser (utils/tracking\_parser.py)\<close>

text \<open>
  The confidence is a Python float; it is modelled as a rational, without the rounding
  of floating-point addition.
\<close>

record ParsedTracking =
  tracking_number :: ustr
  carrier_code :: "ustr option"
  carrier_name :: "ustr option"
  confidence :: rat
  source :: ustr

text \<open>\<^verbatim>\<open>re.sub(r"[\s\-_.]", "", raw)\<close>\<close>

definition normalize_tracking_number :: "ustr \<Rightarrow> ustr" where
  "normalize_tracking_number raw =
     sub_class_empty (\<lambda>c. is_space c \<or> c = 0x2D \<or> c = 0x5F \<or> c = 0x2E) raw"

text \<open>The class \<^verbatim>\<open>[0-9\-\s]\<close>, the class \<^verbatim>\<open>[:\s]\<close> and the class \<^verbatim>\<open>[\-\s]\<close>.\<close>

definition digit_dash_space :: "nat \<Rightarrow> bool" where
  "digit_dash_space c \<longleftrightarrow> is_ascii_digit c \<or> c = 0x2D \<or> is_space c"

definition colon_space :: "nat \<Rightarrow> bool" where
  "colon_space c \<longleftrightarrow> c = 0x3A \<or> is_space c"

definition dash_space :: "nat \<Rightarrow> bool" where
  "dash_space c \<longleftrightarrow> c = 0x2D \<or> is_space c"

text \<open>
  The four explicit patterns, matched with \<^verbatim>\<open>re.IGNORECASE\<close>: a label, for the two
  Korean ones \<^verbatim>\<open>\s*\<close> and an optional U+BC88 U+D638, then \<^verbatim>\<open>[:\s]*([0-9\-\s]{10,20})\<close>.
\<close>

definition explicit_patterns :: "rx list" where
  "explicit_patterns =
    [seqs [lit chr_ci [0xC6B4, 0xC1A1, 0xC7A5], Rep is_space 0 None,
           Alt (lit chr_ci [0xBC88, 0xD638]) Eps, Rep colon_space 0 None,
           Grp 1 (Rep digit_dash_space 10 (Some 20))],
     seqs [lit chr_ci [0xC1A1, 0xC7A5], Rep is_space 0 None,
           Alt (lit chr_ci [0xBC88, 0xD638]) Eps, Rep colon_space 0 None,
           Grp 1 (Rep digit_dash_space 10 (Some 20))],
     seqs [lit chr_ci (asc ''invoice''), Rep colon_space 0 None,
           Grp 1 (Rep digit_dash_space 10 (Some 20))],
     seqs [lit chr_ci (asc ''tracking''), Rep colon_space 0 None,
           Grp 1 (Rep digit_dash_space 10 (Some 20))]]"

text \<open>\<^verbatim>\<open>\b([0-9]{10,14})\b\<close>\<close>

definition number_pattern :: rx where
  "number_pattern = seqs [Bnd, Grp 1 (Rep is_ascii_digit 10 (Some 14)), Bnd]"

text \<open>\<^verbatim>\<open>\b(\d{3,5}[\-\s]\d{3,5}[\-\s]\d{3,5})\b\<close>\<close>

definition dash_pattern :: rx where
  "dash_pattern =
     seqs [Bnd,
           Grp 1 (seqs [Rep is_decimal 3 (Some 5), Cls dash_space, Rep is_decimal 3 (Some 5),
                        Cls dash_space, Rep is_decimal 3 (Some 5)]),
           Bnd]"

text \<open>
  The loop over the matches of one explicit pattern: a normalized match of length 10
  to 15 is appended. Nothing is asked about the candidates already there.
\<close>

fun explicit_matches_loop :: "ustr list \<Rightarrow> ustr list \<Rightarrow> ustr list" where
  "explicit_matches_loop [] candidates = candidates"
| "explicit_matches_loop (m # ms) candidates =
     (let normalized = normalize_tracking_number m in
      explicit_matches_loop ms
        (if 10 \<le> length normalized \<and> length normalized \<le> 15 then candidates @ [normalized]
         else candidates))"

text \<open>The loop over the explicit patterns.\<close>

fun explicit_patterns_loop :: "rx list \<Rightarrow> ustr \<Rightarrow> ustr list \<Rightarrow> ustr list" where
  "explicit_patterns_loop [] text candidates = candidates"
| "explicit_patterns_loop (pattern # rest) text candidates =
     explicit_patterns_loop rest text (explicit_matches_loop (findall pattern text) candidates)"

text \<open>The loop over the standalone numbers: a match not among the candidates is appended.\<close>

fun number_matches_loop :: "ustr list \<Rightarrow> ustr list \<Rightarrow> ustr list" where
  "number_matches_loop [] candidates = candidates"
| "number_matches_loop (m # ms) candidates =
     number_matches_loop ms (if m \<notin> set candidates then candidates @ [m] else candidates)"

text \<open>
  The loop over the dash-grouped numbers: a normalized match not among the candidates
  and of length 10 to 15 is appended.
\<close>

fun dash_matches_loop :: "ustr list \<Rightarrow> ustr list \<Rightarrow> ustr list" where
  "dash_matches_loop [] candidates = candidates"
| "dash_matches_loop (m # ms) candidates =
     (let normalized = normalize_tracking_number m in
      dash_matches_loop ms
        (if normalized \<notin> set candidates \<and> 10 \<le> length normalized \<and> length normalized \<le> 15
         then candidates @ [normalized] else candidates))"

definition extract_tracking_numbers :: "ustr \<Rightarrow> ustr list" where
  "extract_tracking_numbers text =
     (let candidates = explicit_patterns_loop explicit_patterns text [];
          candidates = number_matches_loop (findall number_pattern text) candidates;
          candidates = dash_matches_loop (findall dash_pattern text) candidates
      in candidates)"

text \<open>The first alias, in the order of \<^verbatim>\<open>CARRIER_ALIASES\<close>, that occurs in the text.\<close>

fun first_alias_in :: "ustr list \<Rightarrow> ustr \<Rightarrow> ustr option" where
  "first_alias_in [] text_lower = None"
| "first_alias_in (alias # rest) text_lower =
     (if str_in alias text_lower then Some alias else first_alias_in rest text_lower)"

text \<open>
  The carrier patterns \<^verbatim>\<open>\[([\w\s]+)\]\<close>, \<^verbatim>\<open>([\w]+XX)\<close> with XX the suffix U+D0DD U+BC30,
  and the same with the suffix U+B85C U+C9C0 U+C2A4.
\<close>

definition word_or_space :: "nat \<Rightarrow> bool" where
  "word_or_space c \<longleftrightarrow> is_word c \<or> is_space c"

definition carrier_patterns :: "rx list" where
  "carrier_patterns =
    [seqs [Cls (chr_is 0x5B), Grp 1 (Rep word_or_space 1 None), Cls (chr_is 0x5D)],
     Grp 1 (seqs [Rep is_word 1 None, lit chr_is [0xD0DD, 0xBC30]]),
     Grp 1 (seqs [Rep is_word 1 None, lit chr_is [0xB85C, 0xC9C0, 0xC2A4]])]"

text \<open>
  The loop over the carrier patterns: the first pattern found in the text whose
  group, lower-cased and without spaces, is an alias returns it.
\<close>

fun carrier_patterns_loop :: "rx list \<Rightarrow> ustr \<Rightarrow> ustr option" where
  "carrier_patterns_loop [] text = None"
| "carrier_patterns_loop (pattern # rest) text =
     (case re_search pattern text of
        None \<Rightarrow> carrier_patterns_loop rest text
      | Some (st, caps) \<Rightarrow>
          (let carrier_text =
                 remove_spaces (lower (case group caps 1 of None \<Rightarrow> [] | Some g \<Rightarrow> g))
           in if carrier_text \<in> set (map fst CARRIER_ALIASES) then Some carrier_text
              else carrier_patterns_loop rest text))"

definition extract_carrier_name :: "ustr \<Rightarrow> ustr option" where
  "extract_carrier_name text =
     (let text_lower = lower text in
      case first_alias_in (map fst CARRIER_ALIASES) text_lower of
        Some alias \<Rightarrow> Some alias
      | None \<Rightarrow> carrier_patterns_loop carrier_patterns text)"

text \<open>
  The loop of \<^verbatim>\<open>parse_tracking_input\<close> over the candidates. The variables
  \<^verbatim>\<open>carrier_code\<close> and \<^verbatim>\<open>carrier_name\<close> are set before the loop and live across its
  passes: they are the state of the loop.
\<close>

definition has_label :: "ustr \<Rightarrow> bool" where
  "has_label text \<longleftrightarrow> str_in [0xC6B4, 0xC1A1, 0xC7A5] text \<or> str_in [0xC1A1, 0xC7A5] text"

fun candidates_loop ::
  "ustr \<Rightarrow> ustr option \<Rightarrow> ustr list \<Rightarrow> ustr option \<times> ustr option \<Rightarrow> ParsedTracking list
     \<Rightarrow> ParsedTracking list"
where
  "candidates_loop text mentioned_carrier [] st results = results"
| "candidates_loop text mentioned_carrier (tracking_num # rest) st results =
     (let (cc, cn) = st;
          (cc, cn) =
            (if \<not> truthy cc then
               (case detect_carrier_from_tracking tracking_num of
                  None \<Rightarrow> (cc, cn)
                | Some detected_code \<Rightarrow>
                    if detected_code = [] then (cc, cn)
                    else (case get_carrier_by_code detected_code of
                            None \<Rightarrow> (cc, cn)
                          | Some carrier \<Rightarrow> (Some (code carrier), Some (name carrier))))
             else (cc, cn));
          confidence = 1 / 2;
          confidence =
            (if 11 \<le> length tracking_num \<and> length tracking_num \<le> 13 then confidence + 2 / 10
             else confidence);
          confidence = (if truthy cc then confidence + 2 / 10 else confidence);
          confidence = (if has_label text then confidence + 1 / 10 else confidence);
          confidence = min confidence 1;
          src =
            (if has_label text
             then [0xC6B4, 0xC1A1, 0xC7A5, 0x20, 0xBC88, 0xD638, 0x20, 0xBA85, 0xC2DC, 0xC5D0, 0xC11C,
                   0x20, 0xCD94, 0xCD9C]
             else if truthy mentioned_carrier
             then (if truthy cn then the cn else the mentioned_carrier)
                    @ [0x20, 0xBB38, 0xC790, 0xC5D0, 0xC11C, 0x20, 0xCD94, 0xCD9C]
             else [0xD14D, 0xC2A4, 0xD2B8, 0xC5D0, 0xC11C, 0x20, 0xC22B, 0xC790, 0x20, 0xD328, 0xD134,
                   0xC73C, 0xB85C, 0x20, 0xCD94, 0xCD9C])
      in candidates_loop text mentioned_carrier rest (cc, cn)
           (results @ [\<lparr>tracking_number = tracking_num, carrier_code = cc, carrier_name = cn,
                        confidence = confidence, source = src\<rparr>]))"

definition parse_tracking_input :: "ustr \<Rightarrow> ParsedTracking list" where
  "parse_tracking_input text =
     (let mentioned_carrier = extract_carrier_name text;
          st = (if truthy mentioned_carrier then
                  (case get_carrier_by_name (the mentioned_carrier) of
                     None \<Rightarrow> (None, None)
                   | Some carrier \<Rightarrow> (Some (code carrier), Some (name carrier)))
                else (None, None));
          candidates = extract_tracking_numbers text
      in candidates_loop text mentioned_carrier candidates st [])"

definition validate_tracking_number :: "ustr \<Rightarrow> bool" where
  "validate_tracking_number tn \<longleftrightarrow>
     tn \<noteq> [] \<and> isdigit tn \<and> 10 \<le> length tn \<and> length tn \<le> 14"

section \<open>Tracking client (services/sweet\_tracker.py)\<close>

subsection \<open>Values decoded from JSON\<close>

text \<open>
  \<^verbatim>\<open>response.json()\<close> gives an untyped Python value, and the fields of the result read
  from it are whatever the payload holds: \<open>JNull\<close> is Python's \<^verbatim>\<open>None\<close>. An object is
  the list of its items, keys distinct, in insertion order. The value of a float is
  never read, only its type.
\<close>

datatype json =
  JNull | JBool bool | JInt int | JFloat rat | JStr ustr | JArr "json list"
  | JObj "(ustr \<times> json) list"

text \<open>\<^verbatim>\<open>type(v).__name__\<close>, as the messages of the exceptions below print it.\<close>

fun type_name :: "json \<Rightarrow> ustr" where
  "type_name JNull = asc ''NoneType''"
| "type_name (JBool b) = asc ''bool''"
| "type_name (JInt i) = asc ''int''"
| "type_name (JFloat r) = asc ''float''"
| "type_name (JStr s) = asc ''str''"
| "type_name (JArr xs) = asc ''list''"
| "type_name (JObj kvs) = asc ''dict''"

text \<open>\<^verbatim>\<open>d.get(key)\<close> and \<^verbatim>\<open>d.get(key, default)\<close> on a dict.\<close>

definition dict_get :: "(ustr \<times> json) list \<Rightarrow> ustr \<Rightarrow> json" where
  "dict_get d k = (case map_of d k of None \<Rightarrow> JNull | Some v \<Rightarrow> v)"

definition dict_get_default :: "(ustr \<times> json) list \<Rightarrow> ustr \<Rightarrow> json \<Rightarrow> json" where
  "dict_get_default d k dflt = (case map_of d k of None \<Rightarrow> dflt | Some v \<Rightarrow> v)"

text \<open>
  The exceptions the parsing code can raise by itself, with the text \<^verbatim>\<open>str(e)\<close> gives:
  an attribute missing on a value of some type, and a \<^verbatim>\<open>for\<close> loop over a value that is
  not iterable.
\<close>

datatype exn = AttributeError ustr ustr | NotIterable ustr

fun str_exn :: "exn \<Rightarrow> ustr" where
  "str_exn (AttributeError ty attr) =
     asc [CHR 0x27] @ ty @ asc [CHR 0x27] @ asc '' object has no attribute '' @ asc [CHR 0x27]
       @ attr @ asc [CHR 0x27]"
| "str_exn (NotIterable ty) =
     asc [CHR 0x27] @ ty @ asc [CHR 0x27] @ asc '' object is not iterable''"

text \<open>
  What \<^verbatim>\<open>for x in v\<close> iterates over: the elements of a list, the keys of a dict, the
  characters of a string; any other value raises \<^verbatim>\<open>TypeError\<close>.
\<close>

fun iter_items :: "json \<Rightarrow> exn + json list" where
  "iter_items (JArr xs) = Inr xs"
| "iter_items (JObj kvs) = Inr (map (\<lambda>kv. JStr (fst kv)) kvs)"
| "iter_items (JStr s) = Inr (map (\<lambda>c. JStr [c]) s)"
| "iter_items v = Inl (NotIterable (type_name v))"

subsection \<open>Results\<close>

record TrackingEvent =
  time :: json
  status :: json
  location :: json
  detail :: json

record TrackingResult =
  success :: bool
  tracking_number :: ustr
  carrier_code :: ustr
  carrier_name :: ustr
  sender :: json
  receiver :: json
  item_name :: json
  events :: "TrackingEvent list"
  current_status :: ustr
  is_delivered :: bool
  error_message :: json

subsection \<open>The world outside\<close>

text \<open>
  One request to the tracking API, through \<^verbatim>\<open>client.get\<close>, \<^verbatim>\<open>raise_for_status\<close> and
  \<^verbatim>\<open>response.json\<close>, ends in one of four ways: an HTTP error status, a timeout, any
  other exception (with its text), or a decoded payload.
\<close>

datatype response =
  HTTPStatusError nat | TimeoutException | OtherException ustr | Payload json

text \<open>
  A call is the tracking number and the carrier code of a request. The upstream
  service answers a request knowing the calls made before it. The client's state is
  its mock flag; the clock and the string hash are used by the mock data only:
  \<open>ago w d h\<close> is \<^verbatim>\<open>(now - timedelta(days=d, hours=h)).strftime("%Y-%m-%d %H:%M")\<close>.
\<close>

type_synonym call = "ustr \<times> ustr"

record world =
  mock_mode :: bool
  fetch :: "call list \<Rightarrow> ustr \<Rightarrow> ustr \<Rightarrow> response"
  ago :: "nat \<Rightarrow> nat \<Rightarrow> ustr"
  str_hash :: "ustr \<Rightarrow> int"

text \<open>\<^verbatim>\<open>carrier.name if carrier else f"... {carrier_code}"\<close>\<close>

definition carrier_name_of :: "ustr \<Rightarrow> ustr" where
  "carrier_name_of cc =
     (case get_carrier_by_code cc of
        Some carrier \<Rightarrow> name carrier
      | None \<Rightarrow> [0xD0DD, 0xBC30, 0xC0AC, 0x20] @ cc)"

subsection \<open>Mock data\<close>

text \<open>The four scenarios: events, current status, delivered flag.\<close>

definition scenarios :: "world \<Rightarrow> (TrackingEvent list \<times> ustr \<times> bool) list" where
  "scenarios W =
    [
     ([
        \<lparr>time = JStr (ago W 2 0), status = JStr [0xC9D1, 0xD654, 0xCC98, 0xB9AC],
          location = JStr [0xC11C, 0xC6B8, 0x20, 0xAC15, 0xB0A8, 0xAD6C],
          detail = JStr [0xC0C1, 0xD488, 0xC778, 0xC218]\<rparr>,
        \<lparr>time = JStr (ago W 1 18), status = JStr [0xAC04, 0xC120, 0xC0C1, 0xCC28],
          location = JStr [0xC11C, 0xC6B8, 0x20, 0x48, 0x55, 0x42],
          detail = JStr [0xAC04, 0xC120, 0xC0C1, 0xCC28]\<rparr>,
        \<lparr>time = JStr (ago W 1 6), status = JStr [0xAC04, 0xC120, 0xD558, 0xCC28],
          location = JStr [0xBD80, 0xC0B0, 0x20, 0x48, 0x55, 0x42],
          detail = JStr [0xAC04, 0xC120, 0xD558, 0xCC28]\<rparr>,
        \<lparr>time = JStr (ago W 0 3), status = JStr [0x53, 0x4D, 0xC785, 0xACE0],
          location = JStr [0xBD80, 0xC0B0, 0x20, 0xD574, 0xC6B4, 0xB300, 0xAD6C],
          detail = JStr [0xBC30, 0xC1A1, 0xAE30, 0xC0AC, 0xC778, 0xC218]\<rparr>],
      [0x53, 0x4D, 0xC785, 0xACE0], False),
     ([
        \<lparr>time = JStr (ago W 1 0), status = JStr [0xC9D1, 0xD654, 0xCC98, 0xB9AC],
          location = JStr [0xC11C, 0xC6B8, 0x20, 0xC1A1, 0xD30C, 0xAD6C],
          detail = JStr [0xC0C1, 0xD488, 0xC778, 0xC218]\<rparr>,
        \<lparr>time = JStr (ago W 0 12), status = JStr [0xAC04, 0xC120, 0xC0C1, 0xCC28],
          location = JStr [0xC11C, 0xC6B8, 0x20, 0x48, 0x55, 0x42],
          detail = JStr [0xAC04, 0xC120, 0xC0C1, 0xCC28]\<rparr>,
        \<lparr>time = JStr (ago W 0 6), status = JStr [0xAC04, 0xC120, 0xD558, 0xCC28],
          location = JStr [0xC11C, 0xC6B8, 0x20, 0xAC15, 0xB0A8, 0x20, 0x48, 0x55, 0x42],
          detail = JStr [0xAC04, 0xC120, 0xD558, 0xCC28]\<rparr>,
        \<lparr>time = JStr (ago W 0 2), status = JStr [0x53, 0x4D, 0xC785, 0xACE0],
          location = JStr [0xC11C, 0xC6B8, 0x20, 0xAC15, 0xB0A8, 0xAD6C],
          detail = JStr [0xBC30, 0xC1A1, 0xAE30, 0xC0AC, 0xC778, 0xC218]\<rparr>,
        \<lparr>time = JStr (ago W 0 1), status = JStr [0xBC30, 0xB2EC, 0xCD9C, 0xBC1C],
          location = JStr [0xC11C, 0xC6B8, 0x20, 0xAC15, 0xB0A8, 0xAD6C],
          detail = JStr [0xBC30, 0xB2EC, 0xCD9C, 0xBC1C]\<rparr>],
      [0xBC30, 0xB2EC, 0xCD9C, 0xBC1C], False),
     ([
        \<lparr>time = JStr (ago W 2 0), status = JStr [0xC9D1, 0xD654, 0xCC98, 0xB9AC],
          location = JStr [0xACBD, 0xAE30, 0x20, 0xC218, 0xC6D0, 0xC2DC],
          detail = JStr [0xC0C1, 0xD488, 0xC778, 0xC218]\<rparr>,
        \<lparr>time = JStr (ago W 1 0), status = JStr [0xAC04, 0xC120, 0xC0C1, 0xCC28],
          location = JStr [0xC218, 0xC6D0, 0x20, 0x48, 0x55, 0x42],
          detail = JStr [0xAC04, 0xC120, 0xC0C1, 0xCC28]\<rparr>,
        \<lparr>time = JStr (ago W 0 8), status = JStr [0x53, 0x4D, 0xC785, 0xACE0],
          location = JStr [0xC11C, 0xC6B8, 0x20, 0xB9C8, 0xD3EC, 0xAD6C],
          detail = JStr [0xBC30, 0xC1A1, 0xAE30, 0xC0AC, 0xC778, 0xC218]\<rparr>,
        \<lparr>time = JStr (ago W 0 6), status = JStr [0xBC30, 0xB2EC, 0xCD9C, 0xBC1C],
          location = JStr [0xC11C, 0xC6B8, 0x20, 0xB9C8, 0xD3EC, 0xAD6C],
          detail = JStr [0xBC30, 0xB2EC, 0xCD9C, 0xBC1C]\<rparr>,
        \<lparr>time = JStr (ago W 0 5), status = JStr [0xBC30, 0xB2EC, 0xC644, 0xB8CC],
          location = JStr [0xC11C, 0xC6B8, 0x20, 0xB9C8, 0xD3EC, 0xAD6C],
          detail = JStr [0xBC30, 0xB2EC, 0xC644, 0xB8CC]\<rparr>],
      [0xBC30, 0xB2EC, 0xC644, 0xB8CC], True),
     ([
        \<lparr>time = JStr (ago W 5 0), status = JStr [0xC9D1, 0xD654, 0xCC98, 0xB9AC],
          location = JStr [0xC11C, 0xC6B8, 0x20, 0xC601, 0xB4F1, 0xD3EC, 0xAD6C],
          detail = JStr [0xC0C1, 0xD488, 0xC778, 0xC218]\<rparr>,
        \<lparr>time = JStr (ago W 4 0), status = JStr [0xAC04, 0xC120, 0xC0C1, 0xCC28],
          location = JStr [0xC11C, 0xC6B8, 0x20, 0x48, 0x55, 0x42],
          detail = JStr [0xAC04, 0xC120, 0xC0C1, 0xCC28]\<rparr>,
        \<lparr>time = JStr (ago W 3 0), status = JStr [0xAC04, 0xC120, 0xD558, 0xCC28],
          location = JStr [0xBD80, 0xC0B0, 0x20, 0x48, 0x55, 0x42],
          detail = JStr [0xAC04, 0xC120, 0xD558, 0xCC28]\<rparr>],
      [0xAC04, 0xC120, 0xD558, 0xCC28], False)]"

definition generate_mock_result :: "world \<Rightarrow> ustr \<Rightarrow> ustr \<Rightarrow> TrackingResult" where
  "generate_mock_result W tn cc =
     (let scenario_idx = nat (str_hash W tn mod int (length (scenarios W)));
          scenario = scenarios W ! scenario_idx
      in \<lparr>success = True, tracking_number = tn, carrier_code = cc,
          carrier_name = carrier_name_of cc,
          sender = JStr [0xD14C, 0xC2A4, 0xD2B8, 0x20, 0xD310, 0xB9E4, 0xC790],
          receiver = JStr [0xD14C, 0xC2A4, 0xD2B8, 0x20, 0xACE0, 0xAC1D],
          item_name = JStr [0xD14C, 0xC2A4, 0xD2B8, 0x20, 0xC0C1, 0xD488],
          events = fst scenario, current_status = fst (snd scenario),
          is_delivered = snd (snd scenario), error_message = JNull\<rparr>)"

subsection \<open>track\<close>

text \<open>
  The failed result that \<^verbatim>\<open>track\<close> builds in four places, which differ in the error
  message only.
\<close>

definition failed_result :: "ustr \<Rightarrow> ustr \<Rightarrow> json \<Rightarrow> TrackingResult" where
  "failed_result tn cc msg =
     \<lparr>success = False, tracking_number = tn, carrier_code = cc,
      carrier_name = carrier_name_of cc, sender = JNull, receiver = JNull, item_name = JNull,
      events = [], current_status = [0xC870, 0xD68C, 0x20, 0xC2E4, 0xD328],
      is_delivered = False, error_message = msg\<rparr>"

text \<open>One pass of the loop over \<^verbatim>\<open>trackingDetails\<close>: \<^verbatim>\<open>detail.get\<close> needs a dict.\<close>

fun detail_event :: "json \<Rightarrow> exn + TrackingEvent" where
  "detail_event (JObj d) =
     Inr \<lparr>time = dict_get_default d (asc ''timeString'') (JStr []),
          status = dict_get_default d (asc ''kind'') (JStr []),
          location = dict_get_default d (asc ''where'') (JStr []),
          detail = dict_get d (asc ''remark'')\<rparr>"
| "detail_event v = Inl (AttributeError (type_name v) (asc ''get''))"

text \<open>The loop: the first exception ends it.\<close>

fun details_loop :: "json list \<Rightarrow> TrackingEvent list \<Rightarrow> exn + TrackingEvent list" where
  "details_loop [] evs = Inr evs"
| "details_loop (x # xs) evs =
     (case detail_event x of
        Inl e \<Rightarrow> Inl e
      | Inr ev \<Rightarrow> details_loop xs (evs @ [ev]))"

text \<open>
  The current status and the delivered flag read from the events: \<^verbatim>\<open>.lower()\<close> needs
  a string. \<^verbatim>\<open>A or B and C\<close> is \<^verbatim>\<open>A or (B and C)\<close>.
\<close>

definition current_of :: "TrackingEvent list \<Rightarrow> exn + (ustr \<times> bool)" where
  "current_of evs =
     (if evs = [] then Inr ([0xC815, 0xBCF4, 0x20, 0xC5C6, 0xC74C], False)
      else case status (last evs) of
        JStr st \<Rightarrow>
          (let last_status = lower st in
           Inr (st, str_in [0xC644, 0xB8CC] last_status \<or>
                    str_in [0xBC30, 0xB2EC] last_status \<and> \<not> str_in [0xCD9C, 0xBC1C] last_status))
      | v \<Rightarrow> Inl (AttributeError (type_name v) (asc ''lower'')))"

text \<open>The body of the \<^verbatim>\<open>try\<close> block from the decoded payload on.\<close>

definition parse_payload :: "ustr \<Rightarrow> ustr \<Rightarrow> json \<Rightarrow> exn + TrackingResult" where
  "parse_payload tn cc data =
     (case data of
        JObj d \<Rightarrow>
          if dict_get d (asc ''status'') = JStr (asc ''false'') \<or> asc ''msg'' \<in> set (map fst d)
          then Inr (failed_result tn cc
                 (dict_get_default d (asc ''msg'')
                    (JStr [0xC870, 0xD68C, 0xC5D0, 0x20, 0xC2E4, 0xD328, 0xD588, 0xC2B5, 0xB2C8, 0xB2E4])))
          else
            (case iter_items (dict_get_default d (asc ''trackingDetails'') (JArr [])) of
               Inl e \<Rightarrow> Inl e
             | Inr tracking_details \<Rightarrow>
                (case details_loop tracking_details [] of
                   Inl e \<Rightarrow> Inl e
                 | Inr evs \<Rightarrow>
                    (case current_of evs of
                       Inl e \<Rightarrow> Inl e
                     | Inr (cur, delivered) \<Rightarrow>
                        Inr \<lparr>success = True, tracking_number = tn, carrier_code = cc,
                             carrier_name = carrier_name_of cc,
                             sender = dict_get d (asc ''senderName''),
                             receiver = dict_get d (asc ''receiverName''),
                             item_name = dict_get d (asc ''itemName''),
                             events = evs, current_status = cur,
                             is_delivered =
                               (if dict_get d (asc ''completeYN'') = JStr (asc ''Y'') then True
                                else delivered),
                             error_message = JNull\<rparr>)))
      | v \<Rightarrow> Inl (AttributeError (type_name v) (asc ''get'')))"

text \<open>The \<^verbatim>\<open>try\<close> block with its three \<^verbatim>\<open>except\<close> clauses.\<close>

definition track_response :: "ustr \<Rightarrow> ustr \<Rightarrow> response \<Rightarrow> TrackingResult" where
  "track_response tn cc resp =
     (case resp of
        HTTPStatusError status_code \<Rightarrow>
          failed_result tn cc
            (JStr ([0x41, 0x50, 0x49, 0x20, 0xC624, 0xB958, 0x3A, 0x20] @ str_of_nat status_code))
      | TimeoutException \<Rightarrow>
          failed_result tn cc
            (JStr [0x41, 0x50, 0x49, 0x20, 0xC751, 0xB2F5, 0x20, 0xC2DC, 0xAC04, 0x20, 0xCD08, 0xACFC])
      | OtherException txt \<Rightarrow>
          failed_result tn cc (JStr ([0xC624, 0xB958, 0x20, 0xBC1C, 0xC0DD, 0x3A, 0x20] @ txt))
      | Payload data \<Rightarrow>
          (case parse_payload tn cc data of
             Inr r \<Rightarrow> r
           | Inl e \<Rightarrow>
               failed_result tn cc
                 (JStr ([0xC624, 0xB958, 0x20, 0xBC1C, 0xC0DD, 0x3A, 0x20] @ str_exn e))))"

text \<open>
  \<^verbatim>\<open>track\<close>: the calls made so far go in, the result and the calls made so far come
  out. In mock mode no request is made.
\<close>

definition track :: "world \<Rightarrow> call list \<Rightarrow> ustr \<Rightarrow> ustr \<Rightarrow> TrackingResult \<times> call list" where
  "track W calls tn cc =
     (if mock_mode W then (generate_mock_result W tn cc, calls)
      else (track_response tn cc (fetch W calls tn cc), calls @ [(tn, cc)]))"

subsection \<open>track\_auto\_detect\<close>

definition major_carriers :: "ustr list" where
  "major_carriers = [asc ''04'', asc ''08'', asc ''05'', asc ''01'', asc ''06'']"

text \<open>
  The loop over the major carriers: the detected code is skipped, the first
  successful result returns, and \<open>None\<close> says that the loop ran to its end.
\<close>

fun try_carriers ::
  "world \<Rightarrow> ustr option \<Rightarrow> ustr \<Rightarrow> ustr list \<Rightarrow> call list \<Rightarrow> TrackingResult option \<times> call list"
where
  "try_carriers W detected_code tn [] calls = (None, calls)"
| "try_carriers W detected_code tn (cc # rest) calls =
     (if Some cc = detected_code then try_carriers W detected_code tn rest calls
      else case track W calls tn cc of (result, calls') \<Rightarrow>
        if success result then (Some result, calls')
        else try_carriers W detected_code tn rest calls')"

definition not_found_result :: "ustr \<Rightarrow> TrackingResult" where
  "not_found_result tn =
     \<lparr>success = False, tracking_number = tn, carrier_code = [],
      carrier_name = [0xC54C, 0x20, 0xC218, 0x20, 0xC5C6, 0xC74C],
      sender = JNull, receiver = JNull, item_name = JNull, events = [],
      current_status = [0xC870, 0xD68C, 0x20, 0xC2E4, 0xD328], is_delivered = False,
      error_message = JStr [0xD0DD, 0xBC30, 0xC0AC, 0xB97C, 0x20, 0xCC3E, 0xC744, 0x20, 0xC218,
        0x20, 0xC5C6, 0xC2B5, 0xB2C8, 0xB2E4, 0x2E, 0x20, 0xD0DD, 0xBC30, 0xC0AC, 0xB97C, 0x20,
        0xC9C1, 0xC811, 0x20, 0xC9C0, 0xC815, 0xD574, 0xC8FC, 0xC138, 0xC694, 0x2E]\<rparr>"

definition major_attempts :: "world \<Rightarrow> ustr option \<Rightarrow> ustr \<Rightarrow> call list \<Rightarrow> TrackingResult \<times> call list"
where
  "major_attempts W detected_code tn calls =
     (case try_carriers W detected_code tn major_carriers calls of
        (Some result, calls') \<Rightarrow> (result, calls')
      | (None, calls') \<Rightarrow> (not_found_result tn, calls'))"

definition track_auto_detect :: "world \<Rightarrow> call list \<Rightarrow> ustr \<Rightarrow> TrackingResult \<times> call list" where
  "track_auto_detect W calls tn =
     (let detected_code = detect_carrier_from_tracking tn in
      if mock_mode W
      then (generate_mock_result W tn
              (if truthy detected_code then the detected_code else asc ''04''), calls)
      else if truthy detected_code
      then (case track W calls tn (the detected_code) of (result, calls') \<Rightarrow>
              if success result then (result, calls')
              else major_attempts W detected_code tn calls')
      else major_attempts W detected_code tn calls)"

section \<open>Example inputs\<close>

text \<open>
  A world outside mock mode whose upstream service answers every request with the
  same response.
\<close>

definition constant_world :: "response \<Rightarrow> world" where
  "constant_world r =
     \<lparr>mock_mode = False, fetch = (\<lambda>calls tn cc. r), ago = (\<lambda>d h. []), str_hash = (\<lambda>s. 0)\<rparr>"

text \<open>
  A payload with one tracking detail of kind U+BC30 U+B2EC U+C644 U+B8CC (delivery
  completed), and the payload \<^verbatim>\<open>{"msg": null}\<close>.
\<close>

definition delivered_payload :: json where
  "delivered_payload =
     JObj [(asc ''trackingDetails'',
            JArr [JObj [(asc ''kind'', JStr [0xBC30, 0xB2EC, 0xC644, 0xB8CC])]])]"

definition null_msg_payload :: json where
  "null_msg_payload = JObj [(asc ''msg'', JNull)]"

section \<open>Properties\<close>

subsection \<open>Evaluation of literals\<close>

lemma asc_Nil [simp]: "asc [] = []"
  by (simp add: asc_def)

lemma asc_Cons [simp]: "asc (c # cs) = of_char c # asc cs"
  by (simp add: asc_def)

lemma asc_eq_Nil [simp]: "asc s = [] \<longleftrightarrow> s = []"
  by (simp add: asc_def)

lemmas char_class_defs =
  is_space_def is_ascii_digit_def is_decimal_def is_digit_char_def is_word_def lower_char_def

subsection \<open>Pattern-based carrier detection\<close>

text \<open>
  C1, as stated, fails: a string of 13 digits whose first digit is 6 is caught by the
  first rule and gets the CJ code, not the Korea-Post code.
\<close>

theorem detect_carrier_13_digits_counterexample:
  "isdigit (asc ''6123456789012'') \<and> length (asc ''6123456789012'') = 13 \<and>
   detect_carrier_from_tracking (asc ''6123456789012'') = Some (asc ''04'') \<and>
   detect_carrier_from_tracking (asc ''6123456789012'') \<noteq> Some (asc ''01'')"
  by (simp add: detect_carrier_from_tracking_def isdigit_def char_class_defs)

text \<open>
  C1, amended: on a string of digits the rules are an ordered chain and the first that
  holds wins. Length 12 or 13 with a leading 6 gives the CJ code \<open>04\<close>; otherwise
  length 13 gives the Korea-Post code \<open>01\<close>; otherwise length 11 gives the Logen code
  \<open>06\<close>; every other digit string, among them those of length 12 without a leading
  6, is left undetected.
\<close>

theorem detect_carrier_digit_strings:
  assumes "isdigit s"
  shows "detect_carrier_from_tracking s =
     (if startswith s (asc ''6'') \<and> (length s = 12 \<or> length s = 13) then Some (asc ''04'')
      else if length s = 13 then Some (asc ''01'')
      else if length s = 11 then Some (asc ''06'')
      else None)"
  using assms by (simp add: detect_carrier_from_tracking_def)

theorem detect_carrier_digit_strings_witness:
  "isdigit (asc ''1234567890123'') \<and>
   detect_carrier_from_tracking (asc ''1234567890123'') = Some (asc ''01'') \<and>
   isdigit (asc ''12345678901'') \<and>
   detect_carrier_from_tracking (asc ''12345678901'') = Some (asc ''06'') \<and>
   isdigit (asc ''612345678901'') \<and>
   detect_carrier_from_tracking (asc ''612345678901'') = Some (asc ''04'') \<and>
   isdigit (asc ''123456789012'') \<and>
   detect_carrier_from_tracking (asc ''123456789012'') = None"
proof -
  have d: "isdigit (asc ''1234567890123'')" "isdigit (asc ''12345678901'')"
    "isdigit (asc ''612345678901'')" "isdigit (asc ''123456789012'')"
    by (simp_all add: isdigit_def char_class_defs)
  show ?thesis
    using d detect_carrier_digit_strings [OF d(1)] detect_carrier_digit_strings [OF d(2)]
      detect_carrier_digit_strings [OF d(3)] detect_carrier_digit_strings [OF d(4)]
    by simp
qed

subsection \<open>Status classification\<close>

lemmas translate_status_defs =
  translate_status_def STATUS_TRANSLATIONS_def make_status_def lower_def lower_char_def
  remove_spaces_def Let_def

text \<open>
  C5: \<^verbatim>\<open>translate_status\<close> classifies the raw status "SM" followed by U+C785 U+ACE0 as
  out for delivery, not final, 6 hours remaining; U+BC30 U+B2EC U+C644 U+B8CC (delivery
  completed) as delivered, final, 0 hours remaining; and U+BC18 U+C1A1 (returned) as an
  issue, final, with no estimate.
\<close>

theorem translate_status_examples:
  "phase (translate_status [0x53, 0x4D, 0xC785, 0xACE0]) = OUT_FOR_DELIVERY \<and>
   \<not> is_final (translate_status [0x53, 0x4D, 0xC785, 0xACE0]) \<and>
   estimated_hours (translate_status [0x53, 0x4D, 0xC785, 0xACE0]) = Some 6 \<and>
   phase (translate_status [0xBC30, 0xB2EC, 0xC644, 0xB8CC]) = DELIVERED \<and>
   is_final (translate_status [0xBC30, 0xB2EC, 0xC644, 0xB8CC]) \<and>
   estimated_hours (translate_status [0xBC30, 0xB2EC, 0xC644, 0xB8CC]) = Some 0 \<and>
   phase (translate_status [0xBC18, 0xC1A1]) = ISSUE \<and>
   is_final (translate_status [0xBC18, 0xC1A1]) \<and>
   estimated_hours (translate_status [0xBC18, 0xC1A1]) = None"
  by (simp add: translate_status_defs)

text \<open>
  C10: the raw status U+BC18 U+C1A1 U+C644 U+B8CC (return completed) has no exact key in
  the table. Both the key U+C644 U+B8CC (completed) and the key U+BC18 U+C1A1 (returned)
  occur in it, and the scan in table order meets the completed key first: no key before
  it in the table is the returned key. The status is therefore classified as delivered,
  final, with 0 hours remaining, and not as an issue.
\<close>

theorem translate_status_return_completed:
  "map_of STATUS_TRANSLATIONS (remove_spaces (lower [0xBC18, 0xC1A1, 0xC644, 0xB8CC])) = None \<and>
   str_in [0xC644, 0xB8CC] (remove_spaces (lower [0xBC18, 0xC1A1, 0xC644, 0xB8CC])) \<and>
   str_in [0xBC18, 0xC1A1] (remove_spaces (lower [0xBC18, 0xC1A1, 0xC644, 0xB8CC])) \<and>
   [0xC644, 0xB8CC] \<in> set (map fst STATUS_TRANSLATIONS) \<and>
   [0xBC18, 0xC1A1] \<notin> set (takeWhile (\<lambda>k. k \<noteq> [0xC644, 0xB8CC]) (map fst STATUS_TRANSLATIONS)) \<and>
   partial_match STATUS_TRANSLATIONS (remove_spaces (lower [0xBC18, 0xC1A1, 0xC644, 0xB8CC])) =
     map_of STATUS_TRANSLATIONS [0xC644, 0xB8CC] \<and>
   phase (translate_status [0xBC18, 0xC1A1, 0xC644, 0xB8CC]) = DELIVERED \<and>
   phase (translate_status [0xBC18, 0xC1A1, 0xC644, 0xB8CC]) \<noteq> ISSUE \<and>
   is_final (translate_status [0xBC18, 0xC1A1, 0xC644, 0xB8CC]) \<and>
   estimated_hours (translate_status [0xBC18, 0xC1A1, 0xC644, 0xB8CC]) = Some 0"
  by (simp add: translate_status_defs)

subsection \<open>Explicit query\<close>

lemma failed_result_sel [simp]:
  "\<not> success (failed_result tn cc msg)" "events (failed_result tn cc msg) = []"
  "\<not> is_delivered (failed_result tn cc msg)" "error_message (failed_result tn cc msg) = msg"
  by (simp_all add: failed_result_def)

lemma current_of_Inr:
  assumes "current_of evs = Inr (cur, delivered)" "evs \<noteq> []"
  shows "status (last evs) = JStr cur \<and>
    delivered = (str_in [0xC644, 0xB8CC] (lower cur) \<or>
       str_in [0xBC30, 0xB2EC] (lower cur) \<and> \<not> str_in [0xCD9C, 0xBC1C] (lower cur))"
  using assms by (auto simp: current_of_def Let_def split: json.splits)

lemma parse_payload_success:
  assumes "parse_payload tn cc data = Inr r" "success r" "events r \<noteq> []"
  shows "\<exists>d st. data = JObj d \<and> status (last (events r)) = JStr st \<and> current_status r = st \<and>
     is_delivered r = (dict_get d (asc ''completeYN'') = JStr (asc ''Y'') \<or>
        str_in [0xC644, 0xB8CC] (lower st) \<or>
        str_in [0xBC30, 0xB2EC] (lower st) \<and> \<not> str_in [0xCD9C, 0xBC1C] (lower st))"
proof (cases data)
  case (JObj d)
  show ?thesis
  proof (cases "dict_get d (asc ''status'') = JStr (asc ''false'') \<or> asc ''msg'' \<in> set (map fst d)")
    case True
    with assms JObj show ?thesis
      by (auto simp add: parse_payload_def simp del: asc_Cons)
  next
    case False
    with assms(1) JObj obtain evs cur delivered where
      evs: "current_of evs = Inr (cur, delivered)"
      and r: "r = \<lparr>success = True, tracking_number = tn, carrier_code = cc,
                   carrier_name = carrier_name_of cc,
                   sender = dict_get d (asc ''senderName''),
                   receiver = dict_get d (asc ''receiverName''),
                   item_name = dict_get d (asc ''itemName''),
                   events = evs, current_status = cur,
                   is_delivered =
                     (if dict_get d (asc ''completeYN'') = JStr (asc ''Y'') then True
                      else delivered),
                   error_message = JNull\<rparr>"
      by (auto simp add: parse_payload_def simp del: asc_Cons split: sum.splits prod.splits)
    from r assms(3) have "evs \<noteq> []" by simp
    from current_of_Inr [OF evs this] r JObj show ?thesis by (auto simp del: asc_Cons)
  qed
qed (use assms in \<open>simp_all add: parse_payload_def\<close>)

text \<open>
  C2: outside mock mode, when the upstream request returns a payload and \<^verbatim>\<open>track\<close>
  succeeds with a non-empty event list, the payload is an object, the last event's
  status is a string \<open>st\<close>, and the delivered flag is exactly: the payload's
  \<^verbatim>\<open>completeYN\<close> is \<^verbatim>\<open>"Y"\<close>, or the lower-cased \<open>st\<close> contains U+C644 U+B8CC (complete), or
  it contains U+BC30 U+B2EC (delivery) and does not contain U+CD9C U+BC1C (departed).
  The conjunction binds tighter than the second disjunction.
\<close>

theorem track_delivered_flag:
  assumes "\<not> mock_mode W" and "fetch W calls tn cc = Payload data"
    and "success (fst (track W calls tn cc))" and "events (fst (track W calls tn cc)) \<noteq> []"
  shows "\<exists>d st. data = JObj d \<and> status (last (events (fst (track W calls tn cc)))) = JStr st \<and>
     is_delivered (fst (track W calls tn cc)) =
       (dict_get d (asc ''completeYN'') = JStr (asc ''Y'') \<or>
        (str_in [0xC644, 0xB8CC] (lower st) \<or>
         (str_in [0xBC30, 0xB2EC] (lower st) \<and> \<not> str_in [0xCD9C, 0xBC1C] (lower st))))"
proof -
  let ?r = "fst (track W calls tn cc)"
  from assms(1,2) have t: "?r = track_response tn cc (Payload data)"
    by (simp add: track_def)
  with assms(3) obtain r where p: "parse_payload tn cc data = Inr r"
    by (cases "parse_payload tn cc data") (auto simp: track_response_def)
  with t have "?r = r" by (simp add: track_response_def)
  with parse_payload_success [OF p] assms(3,4) show ?thesis by auto
qed

lemmas track_eval_defs =
  track_def track_response_def parse_payload_def current_of_def dict_get_def
  dict_get_default_def constant_world_def delivered_payload_def null_msg_payload_def
  lower_def lower_char_def Let_def

theorem track_delivered_flag_witness:
  "\<not> mock_mode (constant_world (Payload delivered_payload)) \<and>
   success (fst (track (constant_world (Payload delivered_payload)) [] (asc ''123456789012'') (asc ''04''))) \<and>
   events (fst (track (constant_world (Payload delivered_payload)) [] (asc ''123456789012'') (asc ''04''))) \<noteq> [] \<and>
   (\<exists>d st. delivered_payload = JObj d \<and>
      status (last (events (fst (track (constant_world (Payload delivered_payload)) []
         (asc ''123456789012'') (asc ''04''))))) = JStr st \<and>
      is_delivered (fst (track (constant_world (Payload delivered_payload)) []
         (asc ''123456789012'') (asc ''04''))) =
       (dict_get d (asc ''completeYN'') = JStr (asc ''Y'') \<or>
        (str_in [0xC644, 0xB8CC] (lower st) \<or>
         (str_in [0xBC30, 0xB2EC] (lower st) \<and> \<not> str_in [0xCD9C, 0xBC1C] (lower st)))))"
proof -
  let ?W = "constant_world (Payload delivered_payload)"
  have h1: "\<not> mock_mode ?W" by (simp add: constant_world_def)
  have h2: "fetch ?W [] (asc ''123456789012'') (asc ''04'') = Payload delivered_payload"
    by (simp add: constant_world_def)
  have h3: "success (fst (track ?W [] (asc ''123456789012'') (asc ''04'')))"
    by (simp add: track_eval_defs)
  have h4: "events (fst (track ?W [] (asc ''123456789012'') (asc ''04''))) \<noteq> []"
    by (simp add: track_eval_defs)
  from track_delivered_flag [OF h1 h2 h3 h4] h1 h3 h4 show ?thesis by blast
qed

subsection \<open>Automatic carrier detection\<close>

text \<open>
  When no code was detected and each request fails in its turn, the loop over a list
  of carrier codes runs to its end and has asked each code once, in order.
\<close>

lemma try_carriers_all_fail:
  assumes "\<not> mock_mode W"
    and "\<forall>i<length cs. \<not> success (track_response tn (cs ! i)
           (fetch W (calls @ map (Pair tn) (take i cs)) tn (cs ! i)))"
  shows "try_carriers W None tn cs calls = (None, calls @ map (Pair tn) cs)"
  using assms(2)
proof (induction cs arbitrary: calls)
  case Nil
  show ?case by simp
next
  case (Cons c cs)
  from Cons.prems have head: "\<not> success (track_response tn c (fetch W calls tn c))"
    by fastforce
  have "\<forall>i<length cs. \<not> success (track_response tn (cs ! i)
           (fetch W ((calls @ [(tn, c)]) @ map (Pair tn) (take i cs)) tn (cs ! i)))"
  proof (intro allI impI)
    fix i assume "i < length cs"
    then have "Suc i < length (c # cs)" by simp
    with Cons.prems have "\<not> success (track_response tn ((c # cs) ! Suc i)
           (fetch W (calls @ map (Pair tn) (take (Suc i) (c # cs))) tn ((c # cs) ! Suc i)))"
      by blast
    then show "\<not> success (track_response tn (cs ! i)
           (fetch W ((calls @ [(tn, c)]) @ map (Pair tn) (take i cs)) tn (cs ! i)))"
      by simp
  qed
  from Cons.IH [OF this] head assms(1) show ?case
    by (simp add: track_def)
qed

text \<open>
  C3: outside mock mode, when pattern detection finds no code and the request for
  each of the major carriers 04, 08, 05, 01, 06 fails in its turn,
  \<^verbatim>\<open>track_auto_detect\<close> returns the fixed result: not successful, empty carrier code, the
  "carrier not found, please specify it" message; and the requests made are exactly
  one for each major carrier, in the order of the list.
\<close>

theorem track_auto_detect_all_fail:
  assumes "\<not> mock_mode W"
    and "detect_carrier_from_tracking tn = None"
    and "\<forall>i<length major_carriers. \<not> success (track_response tn (major_carriers ! i)
           (fetch W (calls @ map (Pair tn) (take i major_carriers)) tn (major_carriers ! i)))"
  shows "track_auto_detect W calls tn =
           (not_found_result tn,
            calls @ [(tn, asc ''04''), (tn, asc ''08''), (tn, asc ''05''), (tn, asc ''01''),
                     (tn, asc ''06'')]) \<and>
         \<not> success (not_found_result tn) \<and>
         carrier_code (not_found_result tn) = [] \<and>
         events (not_found_result tn) = [] \<and>
         error_message (not_found_result tn) =
           JStr [0xD0DD, 0xBC30, 0xC0AC, 0xB97C, 0x20, 0xCC3E, 0xC744, 0x20, 0xC218, 0x20, 0xC5C6,
             0xC2B5, 0xB2C8, 0xB2E4, 0x2E, 0x20, 0xD0DD, 0xBC30, 0xC0AC, 0xB97C, 0x20, 0xC9C1,
             0xC811, 0x20, 0xC9C0, 0xC815, 0xD574, 0xC8FC, 0xC138, 0xC694, 0x2E]"
proof -
  have "try_carriers W None tn major_carriers calls =
          (None, calls @ map (Pair tn) major_carriers)"
    by (rule try_carriers_all_fail [OF assms(1) assms(3)])
  then have "track_auto_detect W calls tn =
          (not_found_result tn, calls @ map (Pair tn) major_carriers)"
    using assms(1,2) by (simp add: track_auto_detect_def truthy_def major_attempts_def)
  then show ?thesis
    by (simp add: major_carriers_def not_found_result_def del: asc_Cons)
qed

theorem track_auto_detect_all_fail_witness:
  "\<not> mock_mode (constant_world TimeoutException) \<and>
   detect_carrier_from_tracking (asc ''123456789012'') = None \<and>
   track_auto_detect (constant_world TimeoutException) [] (asc ''123456789012'') =
     (not_found_result (asc ''123456789012''),
      [(asc ''123456789012'', asc ''04''), (asc ''123456789012'', asc ''08''),
       (asc ''123456789012'', asc ''05''), (asc ''123456789012'', asc ''01''),
       (asc ''123456789012'', asc ''06'')])"
proof -
  let ?W = "constant_world TimeoutException"
  have h1: "\<not> mock_mode ?W" by (simp add: constant_world_def)
  have h2: "detect_carrier_from_tracking (asc ''123456789012'') = None"
    by (simp add: detect_carrier_from_tracking_def isdigit_def char_class_defs)
  have h3: "\<forall>i<length major_carriers. \<not> success (track_response (asc ''123456789012'')
      (major_carriers ! i)
      (fetch ?W ([] @ map (Pair (asc ''123456789012'')) (take i major_carriers))
         (asc ''123456789012'') (major_carriers ! i)))"
    by (simp add: constant_world_def track_response_def)
  from track_auto_detect_all_fail [OF h1 h2 h3] h1 h2 show ?thesis by simp
qed

subsection \<open>The invariant of results\<close>

text \<open>
  C4 fails on the payload \<^verbatim>\<open>{"msg": null}\<close>: the key \<^verbatim>\<open>msg\<close> is present, so \<^verbatim>\<open>track\<close>
  returns a failed result, and \<^verbatim>\<open>data.get("msg", default)\<close> is \<^verbatim>\<open>None\<close>, since the default
  only stands in for a missing key. The result is not successful and carries no error
  message.
\<close>

theorem track_null_msg_no_error_message:
  "\<not> mock_mode (constant_world (Payload null_msg_payload)) \<and>
   \<not> success (fst (track (constant_world (Payload null_msg_payload)) []
         (asc ''123456789012'') (asc ''04''))) \<and>
   error_message (fst (track (constant_world (Payload null_msg_payload)) []
         (asc ''123456789012'') (asc ''04''))) = JNull"
  by (simp add: track_eval_defs)

text \<open>
  The rest of the invariant holds for every result of \<^verbatim>\<open>track\<close>: a failed result has
  no events, a delivered result is successful, and a failed result has an error
  message unless the payload is an object whose \<^verbatim>\<open>msg\<close> is null.
\<close>

lemma parse_payload_invariant:
  assumes "parse_payload tn cc data = Inr r"
  shows "(\<not> success r \<longrightarrow> events r = []) \<and> (is_delivered r \<longrightarrow> success r) \<and>
         (\<not> success r \<and> error_message r = JNull \<longrightarrow>
            (\<exists>d. data = JObj d \<and> map_of d (asc ''msg'') = Some JNull))"
  using assms
  by (cases data)
     (auto simp add: parse_payload_def dict_get_default_def simp del: asc_Cons
       split: if_splits sum.splits prod.splits option.splits)

lemma track_response_invariant:
  "(\<not> success (track_response tn cc resp) \<longrightarrow> events (track_response tn cc resp) = []) \<and>
   (is_delivered (track_response tn cc resp) \<longrightarrow> success (track_response tn cc resp)) \<and>
   (\<not> success (track_response tn cc resp) \<and> error_message (track_response tn cc resp) = JNull
      \<longrightarrow> (\<exists>d. resp = Payload (JObj d) \<and> map_of d (asc ''msg'') = Some JNull))"
proof (cases resp)
  case (Payload data)
  show ?thesis
  proof (cases "parse_payload tn cc data")
    case (Inl e)
    with Payload show ?thesis by (simp add: track_response_def)
  next
    case (Inr r)
    with Payload parse_payload_invariant [OF Inr] show ?thesis
      by (simp add: track_response_def)
  qed
qed (simp_all add: track_response_def)

lemma generate_mock_result_success [simp]: "success (generate_mock_result W tn cc)"
  by (simp add: generate_mock_result_def Let_def)

lemma track_invariant:
  "(\<not> success (fst (track W calls tn cc)) \<longrightarrow> events (fst (track W calls tn cc)) = []) \<and>
   (is_delivered (fst (track W calls tn cc)) \<longrightarrow> success (fst (track W calls tn cc))) \<and>
   (\<not> success (fst (track W calls tn cc)) \<and> error_message (fst (track W calls tn cc)) = JNull
      \<longrightarrow> (\<exists>d. fetch W calls tn cc = Payload (JObj d) \<and> map_of d (asc ''msg'') = Some JNull))"
  using track_response_invariant [of tn cc "fetch W calls tn cc"]
  by (simp add: track_def)

subsection \<open>Candidates of the tracking number parser\<close>

lemmas rx_defs = findall_def findall_from.simps match_at_def re_search_def re_match_def group_def
  consumed_def at_boundary_def chr_is_def chr_ci_def fold_case_def in_range_def sub_class_empty_def

lemmas parser_defs = extract_tracking_numbers_def explicit_patterns_def number_pattern_def
  dash_pattern_def normalize_tracking_number_def digit_dash_space_def colon_space_def dash_space_def
  Let_def

lemmas parse_defs = parse_tracking_input_def extract_carrier_name_def CARRIER_ALIASES_def
  CARRIERS_def get_carrier_by_code_def get_carrier_by_name_def detect_carrier_from_tracking_def
  isdigit_def truthy_def has_label_def carrier_patterns_def word_or_space_def lower_def
  remove_spaces_def

text \<open>
  The pass over the standalone numbers and the pass over the dash-grouped numbers
  keep a list without duplicates as it is: both ask whether the candidate is there.
\<close>

lemma number_matches_loop_distinct:
  "distinct candidates \<Longrightarrow> distinct (number_matches_loop ms candidates)"
  by (induction ms arbitrary: candidates) simp_all

lemma dash_matches_loop_distinct:
  "distinct candidates \<Longrightarrow> distinct (dash_matches_loop ms candidates)"
  by (induction ms arbitrary: candidates) (simp_all add: Let_def)

text \<open>
  So a duplicate can only come from the pass over the explicit patterns; whatever
  that pass returns, the two later passes add no duplicate of their own.
\<close>

lemma extract_tracking_numbers_distinct_if:
  "distinct (explicit_patterns_loop explicit_patterns text []) \<Longrightarrow>
   distinct (extract_tracking_numbers text)"
  by (simp add: extract_tracking_numbers_def Let_def number_matches_loop_distinct
      dash_matches_loop_distinct)

text \<open>
  Claim C6 (no candidate is returned twice) does not hold of the code. The text is the
  label U+C6B4 U+C1A1 U+C7A5, a space and the number 1234567890. The first explicit
  pattern finds the number after the three-character label, the second one finds it
  again after the last two characters of the same label, and the loop over the
  explicit patterns appends both: the number is returned twice.
\<close>

theorem extract_tracking_numbers_duplicate:
  "extract_tracking_numbers
     [0xC6B4, 0xC1A1, 0xC7A5, 0x20, 0x31, 0x32, 0x33, 0x34, 0x35, 0x36, 0x37, 0x38, 0x39, 0x30]
   = [asc ''1234567890'', asc ''1234567890'']"
  by (simp add: rx_defs parser_defs char_class_defs)

subsection \<open>Carriers of the candidates\<close>

text \<open>
  Claim C7 (a candidate with no carrier of its own and no carrier in the text gets no
  carrier) does not hold of the code. The text holds two numbers and names no carrier.
  The first number starts with 6 and has 13 characters, so it is given the code 04 and
  its name. The second number has 12 digits and does not start with 6: no rule detects
  a carrier for it. It is given the code 04 and its name all the same, because the
  variables set for the first number are still set when the loop reaches the second.
\<close>

theorem parse_tracking_input_carrier_leak:
  "extract_carrier_name (asc ''6123456789012 123456789012'') = None \<and>
   detect_carrier_from_tracking (asc ''123456789012'') = None \<and>
   map (\<lambda>p. (ParsedTracking.tracking_number p, ParsedTracking.carrier_code p,
              ParsedTracking.carrier_name p))
     (parse_tracking_input (asc ''6123456789012 123456789012'')) =
   [(asc ''6123456789012'', Some (asc ''04''), Some [0x43, 0x4A, 0xB300, 0xD55C, 0xD1B5, 0xC6B4]),
    (asc ''123456789012'', Some (asc ''04''), Some [0x43, 0x4A, 0xB300, 0xD55C, 0xD1B5, 0xC6B4])]"
  by (simp add: rx_defs parser_defs parse_defs char_class_defs)
end
